theory Spec2Isabelle
  imports Main "HOL-Library.AList"
begin

section \<open>JavaScript values and coercions used by the host\<close>

text \<open>
  \<^verbatim>\<open>src/host.ts\<close> tests optional strings for truthiness (\<^verbatim>\<open>!existingCredentials\<close>,
  \<^verbatim>\<open>credentials\<close>) and turns the claimed player identity into a number with unary plus
  before using it as a property key (\<^verbatim>\<open>+playerID in metadata.players\<close>).

  An optional string is a \<open>string option\<close>, \<open>None\<close> standing for \<^verbatim>\<open>undefined\<close>.
  \<^verbatim>\<open>undefined\<close> and the empty string are falsy, every other string is truthy.
\<close>

definition truthy :: "string option \<Rightarrow> bool" where
  "truthy v = (case v of None \<Rightarrow> False | Some s \<Rightarrow> s \<noteq> [])"

text \<open>
  Unary plus on a string is ECMAScript's StringToNumber. The model keeps the exact decimal
  value of the literal: \<open>Decimal neg m e\<close> is \<open>m * 10 ^ e\<close>, negated when \<open>neg\<close> holds (so
  \<open>Decimal True 0 0\<close> is \<^verbatim>\<open>-0\<close>). The rounding of that value to a binary64 float is not
  modelled; it only matters for literals of more than fifteen significant digits or with
  extreme exponents. A string is a list of code units below 256.
\<close>

datatype number = NaN | Infinity bool | Decimal bool nat int

definition StrWhiteSpaceChar :: "char \<Rightarrow> bool" where
  "StrWhiteSpaceChar c = ((of_char c :: nat) \<in> {9, 10, 11, 12, 13, 32, 160})"

definition digit_value :: "char \<Rightarrow> nat option" where
  "digit_value c =
     (let n = (of_char c :: nat) in
      if 48 \<le> n \<and> n \<le> 57 then Some (n - 48)
      else if 97 \<le> n \<and> n \<le> 102 then Some (n - 87)
      else if 65 \<le> n \<and> n \<le> 70 then Some (n - 55)
      else None)"

definition is_digit :: "nat \<Rightarrow> char \<Rightarrow> bool" where
  "is_digit radix c = (case digit_value c of None \<Rightarrow> False | Some d \<Rightarrow> d < radix)"

definition digits_value :: "nat \<Rightarrow> string \<Rightarrow> nat" where
  "digits_value radix ds =
     foldl (\<lambda>n c. n * radix + (case digit_value c of None \<Rightarrow> 0 | Some d \<Rightarrow> d)) 0 ds"

text \<open>SignedInteger: decimal digits with an optional sign (the exponent of a literal).\<close>

definition SignedInteger :: "string \<Rightarrow> int option" where
  "SignedInteger s =
     (case s of
        [] \<Rightarrow> None
      | c # t \<Rightarrow>
          if c = CHR ''+'' \<and> t \<noteq> [] \<and> list_all (is_digit 10) t then Some (int (digits_value 10 t))
          else if c = CHR ''-'' \<and> t \<noteq> [] \<and> list_all (is_digit 10) t
            then Some (- int (digits_value 10 t))
          else if list_all (is_digit 10) s then Some (int (digits_value 10 s))
          else None)"

text \<open>
  StrUnsignedDecimalLiteral: \<^verbatim>\<open>Infinity\<close>, or digits with an optional fraction and an
  optional exponent; at least one digit before the exponent.
\<close>

definition StrUnsignedDecimalLiteral :: "bool \<Rightarrow> string \<Rightarrow> number" where
  "StrUnsignedDecimalLiteral neg s =
     (if s = ''Infinity'' then Infinity neg
      else
        let mantissa = takeWhile (\<lambda>c. c \<noteq> CHR ''e'' \<and> c \<noteq> CHR ''E'') s;
            rest = dropWhile (\<lambda>c. c \<noteq> CHR ''e'' \<and> c \<noteq> CHR ''E'') s;
            exponent = (if rest = [] then Some 0 else SignedInteger (tl rest));
            ip = takeWhile (\<lambda>c. c \<noteq> CHR ''.'') mantissa;
            fp = drop 1 (dropWhile (\<lambda>c. c \<noteq> CHR ''.'') mantissa)
        in case exponent of
             None \<Rightarrow> NaN
           | Some e \<Rightarrow>
               if ip @ fp \<noteq> [] \<and> list_all (is_digit 10) (ip @ fp)
               then Decimal neg (digits_value 10 (ip @ fp)) (e - int (length fp))
               else NaN)"

text \<open>NonDecimalIntegerLiteral: \<^verbatim>\<open>0x\<close>, \<^verbatim>\<open>0o\<close> or \<^verbatim>\<open>0b\<close> (either case) and digits of that radix.\<close>

definition radix_prefix :: "string \<Rightarrow> (nat \<times> string) option" where
  "radix_prefix s =
     (case s of
        a # b # ds \<Rightarrow>
          if a \<noteq> CHR ''0'' then None
          else if b = CHR ''x'' \<or> b = CHR ''X'' then Some (16, ds)
          else if b = CHR ''o'' \<or> b = CHR ''O'' then Some (8, ds)
          else if b = CHR ''b'' \<or> b = CHR ''B'' then Some (2, ds)
          else None
      | _ \<Rightarrow> None)"

definition StrNumericLiteral :: "string \<Rightarrow> number" where
  "StrNumericLiteral s =
     (case s of
        [] \<Rightarrow> NaN
      | c # t \<Rightarrow>
          if c = CHR ''+'' then StrUnsignedDecimalLiteral False t
          else if c = CHR ''-'' then StrUnsignedDecimalLiteral True t
          else (case radix_prefix s of
                  Some (radix, ds) \<Rightarrow>
                    if ds \<noteq> [] \<and> list_all (is_digit radix) ds
                    then Decimal False (digits_value radix ds) 0 else NaN
                | None \<Rightarrow> StrUnsignedDecimalLiteral False s))"

text \<open>
  StringToNumber: white space is dropped at both ends, the empty string is \<open>0\<close>, a string
  that is no numeric literal is \<open>NaN\<close>.
\<close>

definition StringToNumber :: "string \<Rightarrow> number" where
  "StringToNumber s =
     (let t = rev (dropWhile StrWhiteSpaceChar (rev (dropWhile StrWhiteSpaceChar s)))
      in if t = [] then Decimal False 0 0 else StrNumericLiteral t)"

text \<open>
  A number used as a property key is first printed (Number::toString). The keys of
  \<^verbatim>\<open>metadata.players\<close> are the decimal numerals of the player indices, so the key of a
  number names the slot \<open>n\<close> exactly when the number is the natural number \<open>n\<close> (below
  \<open>10 ^ 21\<close>, from where on numbers print with an exponent); \<^verbatim>\<open>-0\<close> prints as \<^verbatim>\<open>0\<close>.
  \<open>NaN\<close>, the infinities, negative numbers and fractions name no slot.
\<close>

definition key_index :: "number \<Rightarrow> nat option" where
  "key_index x =
     (case x of
        NaN \<Rightarrow> None
      | Infinity _ \<Rightarrow> None
      | Decimal neg m e \<Rightarrow>
          if m = 0 then Some 0
          else if neg then None
          else if 0 \<le> e then
            (if m * 10 ^ nat e < 10 ^ 21 then Some (m * 10 ^ nat e) else None)
          else if m mod 10 ^ nat (- e) = 0 \<and> m div 10 ^ nat (- e) < 10 ^ 21
            then Some (m div 10 ^ nat (- e))
          else None)"

section \<open>Data model\<close>

text \<open>
  A connection handle (\<^verbatim>\<open>Client\<close>) carries the identity it claims and a \<^verbatim>\<open>send\<close>
  capability. \<^verbatim>\<open>metadata.playerID\<close> is a string, \<^verbatim>\<open>null\<close> or \<^verbatim>\<open>undefined\<close>;
  \<^verbatim>\<open>metadata.credentials\<close> is a string or \<^verbatim>\<open>undefined\<close>. Handles are compared by
  reference: \<open>ref\<close> is the address of the object, so that two handles with the same
  metadata are different values. The host never writes to a handle, and a handle is taken
  not to change while the host holds it. Calling \<^verbatim>\<open>client.send\<close> is recorded as the
  effect \<open>ClientSend\<close> below; \<^verbatim>\<open>send\<close> is taken to return normally.
\<close>

datatype player_id = Null | Undefined | Str string

record client_metadata =
  playerID :: player_id
  credentials :: "string option"

record client =
  ref :: nat
  metadata :: client_metadata

text \<open>
  The persisted match metadata (boardgame.io's \<^verbatim>\<open>Server.MatchData\<close>): \<^verbatim>\<open>players\<close> maps a
  player index to that player's entry (\<^verbatim>\<open>Server.PlayerMetadata\<close>), whose fields carry the
  suffix \<open>_pm\<close> here. Further fields of either object live in the \<open>more\<close> part of the
  record.
\<close>

record player_metadata =
  id_pm :: nat
  name_pm :: "string option"
  credentials_pm :: "string option"
  isConnected_pm :: "bool option"

record match_metadata =
  gameName :: string
  players :: "nat \<rightharpoonup> player_metadata"
  unlisted :: bool

text \<open>An inbound message: \<^verbatim>\<open>{ type, args }\<close>. The arguments are opaque to the host.\<close>

record 'a ClientAction =
  type :: string
  args :: "'a list"

text \<open>
  The authority engine (\<^verbatim>\<open>Master\<close>), the store, the view filter and the transport are
  collaborators. The model records every call the host makes to them, in order. What
  they do in response is outside this development; in particular the engine is given
  the same store, and its own writes to it are not modelled.
\<close>

datatype 'a master_call =
    OnUpdate "'a list"
  | OnChatMessage "'a list"
  | OnSync "'a list"
  | OnConnectionChange string player_id "string option" bool

datatype 'a effect =
    Master "'a master_call"
  | SetMetadata string match_metadata
  | FilterPlayerView player_id 'a
  | ClientSend client 'a

text \<open>
  The host: the registry \<^verbatim>\<open>clients\<close> (a \<^verbatim>\<open>Map\<close> from handle to handle, in insertion
  order), its \<^verbatim>\<open>matchID\<close>, the store, and the effects so far. The host only ever uses
  the store under its own \<^verbatim>\<open>matchID\<close>, where the constructor creates the match, so \<open>db\<close>
  is the metadata stored under that key.
\<close>

record 'a P2PHost =
  clients :: "(client \<times> client) list"
  matchID :: string
  db :: match_metadata
  trace :: "'a effect list"

section \<open>The store\<close>

text \<open>
  Modelled from the spec: \<^verbatim>\<open>P2PDB.fetch\<close> (\<^verbatim>\<open>src/db.ts\<close> is not among the sources).
  \<^verbatim>\<open>fetch(matchID)\<close> returns the persisted metadata of the match.
\<close>

definition fetch :: "'a P2PHost \<Rightarrow> match_metadata" where
  "fetch h = db h"

text \<open>
  Modelled from the spec: \<^verbatim>\<open>P2PDB.setMetadata\<close> (\<^verbatim>\<open>src/db.ts\<close> is not among the sources).
  \<^verbatim>\<open>setMetadata(matchID, metadata)\<close> replaces the persisted metadata of the match.
\<close>

definition setMetadata :: "'a P2PHost \<Rightarrow> match_metadata \<Rightarrow> 'a P2PHost" where
  "setMetadata h md = h\<lparr>db := md, trace := trace h @ [SetMetadata (matchID h) md]\<rparr>"

section \<open>Authorization\<close>

text \<open>
  \<^verbatim>\<open>authenticateClient\<close>, lines 81 to 114. The guard \<^verbatim>\<open>+playerID in metadata.players\<close>
  holds when the key of the number names a slot \<open>i\<close> and \<open>players\<close> has an entry there;
  \<^verbatim>\<open>metadata.players[+playerID]\<close> is then that entry. The result is the boolean and the
  host after the call.
\<close>

definition authenticateClient :: "'a P2PHost \<Rightarrow> client \<Rightarrow> bool \<times> 'a P2PHost" where
  "authenticateClient h client =
     (let md = fetch h in
      case playerID (metadata client) of
        Null \<Rightarrow> (True, h)
      | Undefined \<Rightarrow> (True, h)
      | Str s \<Rightarrow>
          (case key_index (StringToNumber s) of
             None \<Rightarrow> (True, h)
           | Some i \<Rightarrow>
               (case players md i of
                  None \<Rightarrow> (True, h)
                | Some player \<Rightarrow>
                    let existingCredentials = credentials_pm player in
                    if \<not> truthy existingCredentials \<and> truthy (credentials (metadata client)) then
                      (True,
                       setMetadata h
                         (md\<lparr>players := (players md)
                            (i \<mapsto> player\<lparr>credentials_pm := credentials (metadata client)\<rparr>)\<rparr>))
                    else if \<not> truthy existingCredentials \<and> \<not> truthy (credentials (metadata client))
                      then (True, h)
                    else (credentials (metadata client) = existingCredentials, h))))"

section \<open>The connection registry\<close>

text \<open>
  \<^verbatim>\<open>Map.set\<close> keeps the position of a key that is present and appends a new key;
  \<^verbatim>\<open>Map.delete\<close> removes the key if it is there.
\<close>

definition registerClient :: "'a P2PHost \<Rightarrow> client \<Rightarrow> 'a P2PHost" where
  "registerClient h client =
     (let (isAuthenticated, h1) = authenticateClient h client in
      if \<not> isAuthenticated then h1
      else h1\<lparr>clients := AList.update client client (clients h1),
              trace := trace h1 @
                [Master (OnConnectionChange (matchID h1) (playerID (metadata client))
                   (credentials (metadata client)) True)]\<rparr>)"

definition unregisterClient :: "'a P2PHost \<Rightarrow> client \<Rightarrow> 'a P2PHost" where
  "unregisterClient h client =
     h\<lparr>clients := AList.delete client (clients h),
       trace := trace h @
         [Master (OnConnectionChange (matchID h) (playerID (metadata client))
            (credentials (metadata client)) False)]\<rparr>"

section \<open>The action router\<close>

definition processAction :: "'a P2PHost \<Rightarrow> 'a ClientAction \<Rightarrow> 'a P2PHost" where
  "processAction h data =
     (if type data = ''update'' then h\<lparr>trace := trace h @ [Master (OnUpdate (args data))]\<rparr>
      else if type data = ''chat'' then h\<lparr>trace := trace h @ [Master (OnChatMessage (args data))]\<rparr>
      else if type data = ''sync'' then h\<lparr>trace := trace h @ [Master (OnSync (args data))]\<rparr>
      else h)"

section \<open>The relay\<close>

text \<open>
  The two sinks the constructor hands to the engine. The view filter
  (\<^verbatim>\<open>getFilterPlayerView(game)\<close>) is a parameter, a pure function of the recipient and the
  payload; each call of it is recorded. The loops run over the registry in order.
\<close>

definition call_filterPlayerView ::
  "(player_id \<Rightarrow> 'a \<Rightarrow> 'a) \<Rightarrow> 'a P2PHost \<Rightarrow> player_id \<Rightarrow> 'a \<Rightarrow> 'a \<times> 'a P2PHost" where
  "call_filterPlayerView filterPlayerView h pid data =
     (filterPlayerView pid data, h\<lparr>trace := trace h @ [FilterPlayerView pid data]\<rparr>)"

definition client_send :: "'a P2PHost \<Rightarrow> client \<Rightarrow> 'a \<Rightarrow> 'a P2PHost" where
  "client_send h client payload = h\<lparr>trace := trace h @ [ClientSend client payload]\<rparr>"

definition send :: "(player_id \<Rightarrow> 'a \<Rightarrow> 'a) \<Rightarrow> 'a P2PHost \<Rightarrow> player_id \<Rightarrow> 'a \<Rightarrow> 'a P2PHost" where
  "send filterPlayerView h pid data =
     (let (playerView, h1) = call_filterPlayerView filterPlayerView h pid data in
      foldl (\<lambda>h2 (client, _).
               if playerID (metadata client) = pid then client_send h2 client playerView else h2)
        h1 (clients h1))"

definition sendAll :: "(player_id \<Rightarrow> 'a \<Rightarrow> 'a) \<Rightarrow> 'a P2PHost \<Rightarrow> 'a \<Rightarrow> 'a P2PHost" where
  "sendAll filterPlayerView h data =
     foldl (\<lambda>h2 (client, _).
              let (playerView, h3) =
                    call_filterPlayerView filterPlayerView h2 (playerID (metadata client)) data
              in client_send h3 client playerView)
       h (clients h)"

section \<open>Construction\<close>

text \<open>
  \<^verbatim>\<open>createMatch\<close> of boardgame.io is a parameter: it answers with a setup-data error or
  with the new match, of which the host keeps the metadata. The constructor's result is
  what it printed to the console and either the error it threw or the new host.
\<close>

record game =
  name :: "string option"

datatype createMatch_result = SetupDataError string | Match match_metadata

datatype error = Error string

definition default_name_warning :: string where
  "default_name_warning =
     ''Using \"default\" as your game name.\<newline>'' @
     ''Please set the `name` property of your game definition '' @
     ''to a unique string to help avoid peer ID conflicts.''"

text \<open>
  Modelled from the spec: \<^verbatim>\<open>P2PDB.createMatch\<close> (\<^verbatim>\<open>src/db.ts\<close> is not among the sources).
  \<^verbatim>\<open>createMatch(matchID, initialMatch)\<close> stores the new match under its identifier; the
  result is the metadata that a new store then holds for it.
\<close>

definition P2PDB_createMatch :: "string \<Rightarrow> match_metadata \<Rightarrow> match_metadata" where
  "P2PDB_createMatch mid md = md"

definition new_P2PHost ::
  "(game \<Rightarrow> nat \<Rightarrow> createMatch_result) \<Rightarrow> game \<Rightarrow> nat option \<Rightarrow> string
     \<Rightarrow> string list \<times> (error + 'a P2PHost)" where
  "new_P2PHost createMatch game numPlayers mid =
     (let console =
            (if \<not> truthy (name game) \<or> name game = Some ''default''
             then [default_name_warning] else [])
      in case createMatch game (case numPlayers of None \<Rightarrow> 2 | Some n \<Rightarrow> n) of
           SetupDataError e \<Rightarrow> (console, Inl (Error (''setupData Error: '' @ e)))
         | Match md \<Rightarrow>
             (console,
              Inr \<lparr>clients = [], matchID = mid, db = P2PDB_createMatch mid md, trace = []\<rparr>))"

section \<open>Runs of the host\<close>

text \<open>
  Everything that can happen to a host: the transport's three entry points, the private
  authorization check on its own, and the engine calling either sink.
\<close>

datatype 'a op =
    RegisterClient client
  | UnregisterClient client
  | ProcessAction "'a ClientAction"
  | AuthenticateClient client
  | Send player_id 'a
  | SendAll 'a

fun step :: "(player_id \<Rightarrow> 'a \<Rightarrow> 'a) \<Rightarrow> 'a P2PHost \<Rightarrow> 'a op \<Rightarrow> 'a P2PHost" where
  "step f h (RegisterClient c) = registerClient h c"
| "step f h (UnregisterClient c) = unregisterClient h c"
| "step f h (ProcessAction a) = processAction h a"
| "step f h (AuthenticateClient c) = snd (authenticateClient h c)"
| "step f h (Send pid data) = send f h pid data"
| "step f h (SendAll data) = sendAll f h data"

definition run :: "(player_id \<Rightarrow> 'a \<Rightarrow> 'a) \<Rightarrow> 'a P2PHost \<Rightarrow> 'a op list \<Rightarrow> 'a P2PHost" where
  "run f h ops = foldl (step f) h ops"

section \<open>Observations\<close>

text \<open>The credentials the store holds for a player slot.\<close>

definition stored_credentials :: "'a P2PHost \<Rightarrow> nat \<Rightarrow> string option" where
  "stored_credentials h i =
     (case players (fetch h) i of None \<Rightarrow> None | Some player \<Rightarrow> credentials_pm player)"

text \<open>The effects a call added, and each kind of effect read off a list.\<close>

definition new_effects :: "'a P2PHost \<Rightarrow> 'a P2PHost \<Rightarrow> 'a effect list" where
  "new_effects h h' = drop (length (trace h)) (trace h')"


fun sends :: "'a effect list \<Rightarrow> (client \<times> 'a) list" where
  "sends [] = []"
| "sends (ClientSend c v # es) = (c, v) # sends es"
| "sends (_ # es) = sends es"

fun filter_calls :: "'a effect list \<Rightarrow> (player_id \<times> 'a) list" where
  "filter_calls [] = []"
| "filter_calls (FilterPlayerView pid data # es) = (pid, data) # filter_calls es"
| "filter_calls (_ # es) = filter_calls es"

fun notifications :: "'a effect list \<Rightarrow> 'a master_call list" where
  "notifications [] = []"
| "notifications (Master call # es) = call # notifications es"
| "notifications (_ # es) = notifications es"

section \<open>Example matches and handles\<close>

text \<open>
  The match of the scenarios: \<^verbatim>\<open>m1\<close>, two player slots without credentials, payloads
  that are strings, and a view filter whose output names its recipient.
\<close>

definition entry :: "nat \<Rightarrow> string option \<Rightarrow> player_metadata" where
  "entry i c = \<lparr>id_pm = i, name_pm = None, credentials_pm = c, isConnected_pm = None\<rparr>"

definition two_players :: match_metadata where
  "two_players =
     \<lparr>gameName = ''tic-tac-toe'', players = [0 \<mapsto> entry 0 None, 1 \<mapsto> entry 1 None],
      unlisted = False\<rparr>"

definition host_m1 :: "string P2PHost" where
  "host_m1 = \<lparr>clients = [], matchID = ''m1'', db = two_players, trace = []\<rparr>"

text \<open>The same match once slot 0 is bound to \<^verbatim>\<open>c0\<close>.\<close>

definition m1_bound :: "string P2PHost" where
  "m1_bound =
     host_m1\<lparr>db := two_players\<lparr>players := [0 \<mapsto> entry 0 (Some ''c0''), 1 \<mapsto> entry 1 None]\<rparr>\<rparr>"

definition handle :: "nat \<Rightarrow> player_id \<Rightarrow> string option \<Rightarrow> client" where
  "handle r p c = \<lparr>ref = r, metadata = \<lparr>playerID = p, credentials = c\<rparr>\<rparr>"

definition alice :: client where "alice = handle 1 (Str ''0'') (Some ''c0'')"

definition bob :: client where "bob = handle 2 (Str ''1'') (Some ''c1'')"

definition mallory :: client where "mallory = handle 3 (Str ''0'') (Some ''wrong'')"

definition guest :: client where "guest = handle 4 (Str ''0'') None"

definition watcher :: client where "watcher = handle 5 Undefined None"

definition guest2 :: client where "guest2 = handle 6 (Str ''0'') None"

definition view_for :: "player_id \<Rightarrow> string \<Rightarrow> string" where
  "view_for pid data =
     (case pid of Str s \<Rightarrow> data @ '' for '' @ s | _ \<Rightarrow> data @ '' for a spectator'')"

text \<open>
  Two stand-ins for \<^verbatim>\<open>createMatch\<close>: one that creates \<open>n\<close> empty player slots, and one
  whose game rejects the (undefined) setup data.
\<close>

definition plain_metadata :: "game \<Rightarrow> nat \<Rightarrow> match_metadata" where
  "plain_metadata g n =
     \<lparr>gameName = (case name g of None \<Rightarrow> ''default'' | Some s \<Rightarrow> s),
      players = (\<lambda>i. if i < n then Some (entry i None) else None),
      unlisted = False\<rparr>"

definition createMatch_plain :: "game \<Rightarrow> nat \<Rightarrow> createMatch_result" where
  "createMatch_plain g n = Match (plain_metadata g n)"

definition createMatch_strict :: "game \<Rightarrow> nat \<Rightarrow> createMatch_result" where
  "createMatch_strict g n = SetupDataError ''setupData is required''"

definition chess :: game where "chess = \<lparr>name = Some ''chess''\<rparr>"

definition unnamed :: game where "unnamed = \<lparr>name = Some ''default''\<rparr>"

definition fresh_host :: "game \<Rightarrow> nat \<Rightarrow> string \<Rightarrow> string P2PHost" where
  "fresh_host g n mid = \<lparr>clients = [], matchID = mid, db = plain_metadata g n, trace = []\<rparr>"

text \<open>
  Three runs. In \<open>h_reg\<close> a handle without credentials claims the unbound slot 0 and is
  registered, then \<open>alice\<close> binds the slot. In \<open>h_pair\<close> two handles claim slot 0. In
  \<open>h_three\<close> two players and a spectator are registered and \<open>mallory\<close> is turned away.
\<close>

definition h_reg :: "string P2PHost" where
  "h_reg = run view_for host_m1 [RegisterClient guest, RegisterClient alice]"

definition h_pair :: "string P2PHost" where
  "h_pair = run view_for host_m1 [RegisterClient guest, RegisterClient guest2]"

definition h_three :: "string P2PHost" where
  "h_three = run view_for (fresh_host chess 2 ''m1'')
     [RegisterClient alice, RegisterClient bob, RegisterClient watcher, RegisterClient mallory]"

lemmas js_defs = StringToNumber_def StrWhiteSpaceChar_def StrNumericLiteral_def radix_prefix_def
  StrUnsignedDecimalLiteral_def key_index_def is_digit_def digit_value_def digits_value_def
  SignedInteger_def

lemmas example_defs = host_m1_def two_players_def entry_def handle_def

lemmas handles = alice_def bob_def mallory_def guest_def guest2_def watcher_def handle_def

section \<open>Facts about the coercion\<close>

lemma key_index_0: "key_index (StringToNumber ''0'') = Some 0"
  by (simp add: js_defs)

lemma key_index_1: "key_index (StringToNumber ''1'') = Some 1"
  by (simp add: js_defs)

text \<open>
  Strings that read as numbers name slots too: \<^verbatim>\<open>1.0\<close>, \<^verbatim>\<open>0x1\<close> and \<^verbatim>\<open>1\<close> between
  blanks are slot 1, and the empty string is slot 0. Words, negative numbers and fractions
  name no slot.
\<close>

lemma key_index_examples:
  "key_index (StringToNumber ''1.0'') = Some 1"
  "key_index (StringToNumber ''0x1'') = Some 1"
  "key_index (StringToNumber '' 1 '') = Some 1"
  "key_index (StringToNumber ''1e0'') = Some 1"
  "key_index (StringToNumber ''-0'') = Some 0"
  "key_index (StringToNumber '''') = Some 0"
  "key_index (StringToNumber ''abc'') = None"
  "key_index (StringToNumber ''-1'') = None"
  "key_index (StringToNumber ''1.5'') = None"
  "key_index (StringToNumber ''Infinity'') = None"
  "key_index (StringToNumber ''1e21'') = None"
  by (simp_all add: js_defs)

section \<open>Facts about single calls\<close>

lemma authenticateClient_clients: "clients (snd (authenticateClient h c)) = clients h"
  by (simp add: authenticateClient_def setMetadata_def Let_def
      split: player_id.splits option.splits)

lemma authenticateClient_matchID: "matchID (snd (authenticateClient h c)) = matchID h"
  by (simp add: authenticateClient_def setMetadata_def Let_def
      split: player_id.splits option.splits)

text \<open>A slot that holds non-empty credentials decides the call and is not written.\<close>

lemma authenticateClient_bound_slot:
  "players (db h) i = Some p \<Longrightarrow> truthy (credentials_pm p) \<Longrightarrow>
   players (db (snd (authenticateClient h c))) i = Some p"
  by (auto simp: authenticateClient_def setMetadata_def fetch_def Let_def
      split: player_id.splits option.splits)

lemma authenticateClient_bound:
  "playerID (metadata c) = Str s \<Longrightarrow> key_index (StringToNumber s) = Some i \<Longrightarrow>
   players (db h) i = Some p \<Longrightarrow> truthy (credentials_pm p) \<Longrightarrow>
   authenticateClient h c = (credentials (metadata c) = credentials_pm p, h)"
  by (simp add: authenticateClient_def fetch_def Let_def)

text \<open>What a rejection means.\<close>

lemma authenticateClient_rejects:
  "\<not> fst (authenticateClient h c) \<longleftrightarrow>
     (\<exists>s i p. playerID (metadata c) = Str s \<and> key_index (StringToNumber s) = Some i \<and>
        players (db h) i = Some p \<and> truthy (credentials_pm p) \<and>
        credentials (metadata c) \<noteq> credentials_pm p)"
  by (auto simp: authenticateClient_def fetch_def Let_def
      split: player_id.splits option.splits)

lemma authenticateClient_rejects_unchanged:
  "\<not> fst (authenticateClient h c) \<Longrightarrow> authenticateClient h c = (False, h)"
  by (auto simp: authenticateClient_def fetch_def Let_def
      split: player_id.splits option.splits if_splits)

text \<open>
  The empty string is a \<^verbatim>\<open>playerID\<close> that claims slot 0: unary plus reads it as \<open>0\<close>.
\<close>

lemma empty_playerID_claims_slot_0:
  "authenticateClient m1_bound (handle 9 (Str '''') (Some ''wrong'')) = (False, m1_bound)"
  by (simp add: authenticateClient_def StringToNumber_def key_index_def fetch_def truthy_def
      m1_bound_def example_defs)

lemma trace_authenticateClient:
  "\<exists>es. trace (snd (authenticateClient h c)) = trace h @ es \<and> sends es = []"
  by (auto simp: authenticateClient_def setMetadata_def Let_def
      split: player_id.splits option.splits)

lemma registerClient_db: "db (registerClient h c) = db (snd (authenticateClient h c))"
  by (simp add: registerClient_def split: prod.splits)

lemma registerClient_clients:
  "clients (registerClient h c) =
     (if fst (authenticateClient h c) then AList.update c c (clients h) else clients h)"
  by (simp add: registerClient_def authenticateClient_clients [of h c, symmetric]
      split: prod.splits)

lemma registerClient_rejected: "\<not> fst (authenticateClient h c) \<Longrightarrow> registerClient h c = h"
  by (simp add: registerClient_def authenticateClient_rejects_unchanged)


section \<open>Facts about the two fan-outs\<close>

lemma send_loop:
  "foldl (\<lambda>h2 (client, _).
            if playerID (metadata client) = pid then client_send h2 client v else h2) h xs
   = h\<lparr>trace := trace h @
        map (\<lambda>c. ClientSend c v) (filter (\<lambda>c. playerID (metadata c) = pid) (map fst xs))\<rparr>"
  by (induction xs arbitrary: h) (auto simp: client_send_def)

lemma sendAll_loop:
  "foldl (\<lambda>h2 (client, _).
            let (playerView, h3) =
                  call_filterPlayerView f h2 (playerID (metadata client)) data
            in client_send h3 client playerView) h xs
   = h\<lparr>trace := trace h @
        concat (map (\<lambda>c. [FilterPlayerView (playerID (metadata c)) data,
                          ClientSend c (f (playerID (metadata c)) data)]) (map fst xs))\<rparr>"
  by (induction xs arbitrary: h) (auto simp: client_send_def call_filterPlayerView_def)

lemma send_eq:
  "send f h pid data =
     h\<lparr>trace := trace h @ FilterPlayerView pid data #
        map (\<lambda>c. ClientSend c (f pid data))
          (filter (\<lambda>c. playerID (metadata c) = pid) (map fst (clients h)))\<rparr>"
  by (simp add: send_def call_filterPlayerView_def send_loop)

lemma sendAll_eq:
  "sendAll f h data =
     h\<lparr>trace := trace h @
        concat (map (\<lambda>c. [FilterPlayerView (playerID (metadata c)) data,
                          ClientSend c (f (playerID (metadata c)) data)]) (map fst (clients h)))\<rparr>"
  unfolding sendAll_def by (rule sendAll_loop)

lemma sends_append: "sends (xs @ ys) = sends xs @ sends ys"
  by (induction xs rule: sends.induct) simp_all

lemma sends_map_ClientSend: "sends (map (\<lambda>c. ClientSend c (g c)) cs) = map (\<lambda>c. (c, g c)) cs"
  by (induction cs) simp_all

lemma filter_calls_map_ClientSend: "filter_calls (map (\<lambda>c. ClientSend c (g c)) cs) = []"
  by (induction cs) simp_all

lemma sends_fan_out:
  "sends (concat (map (\<lambda>c. [FilterPlayerView (p c) data, ClientSend c (g c)]) cs))
     = map (\<lambda>c. (c, g c)) cs"
  by (induction cs) simp_all

lemma filter_calls_fan_out:
  "filter_calls (concat (map (\<lambda>c. [FilterPlayerView (p c) data, ClientSend c (g c)]) cs))
     = map (\<lambda>c. (p c, data)) cs"
  by (induction cs) simp_all

lemma new_effects_send:
  "new_effects h (send f h pid data) = FilterPlayerView pid data #
      map (\<lambda>c. ClientSend c (f pid data))
        (filter (\<lambda>c. playerID (metadata c) = pid) (map fst (clients h)))"
  by (simp add: new_effects_def send_eq)

lemma new_effects_sendAll:
  "new_effects h (sendAll f h data) =
     concat (map (\<lambda>c. [FilterPlayerView (playerID (metadata c)) data,
                       ClientSend c (f (playerID (metadata c)) data)]) (map fst (clients h)))"
  by (simp add: new_effects_def sendAll_eq)

lemma sends_send:
  "sends (new_effects h (send f h pid data)) =
     map (\<lambda>c. (c, f pid data)) (filter (\<lambda>c. playerID (metadata c) = pid) (map fst (clients h)))"
  unfolding new_effects_send by (simp only: sends.simps sends_map_ClientSend)

lemma sends_sendAll:
  "sends (new_effects h (sendAll f h data)) =
     map (\<lambda>c. (c, f (playerID (metadata c)) data)) (map fst (clients h))"
  unfolding new_effects_sendAll by (rule sends_fan_out)

lemma filter_calls_send: "filter_calls (new_effects h (send f h pid data)) = [(pid, data)]"
  unfolding new_effects_send by (simp only: filter_calls.simps filter_calls_map_ClientSend)

lemma filter_calls_sendAll:
  "filter_calls (new_effects h (sendAll f h data)) =
     map (\<lambda>c. (playerID (metadata c), data)) (map fst (clients h))"
  unfolding new_effects_sendAll by (rule filter_calls_fan_out)

lemma trace_send: "trace (send f h pid data) = trace h @ new_effects h (send f h pid data)"
  by (simp add: new_effects_def send_eq)

lemma trace_sendAll: "trace (sendAll f h data) = trace h @ new_effects h (sendAll f h data)"
  by (simp add: new_effects_def sendAll_eq)


section \<open>Facts about runs\<close>

lemma run_snoc: "run f h (ops @ [op]) = step f (run f h ops) op"
  by (simp add: run_def)

lemma step_bound_slot:
  "players (db h) i = Some p \<Longrightarrow> truthy (credentials_pm p) \<Longrightarrow>
   players (db (step f h op)) i = Some p"
  by (cases op)
    (simp_all add: registerClient_db authenticateClient_bound_slot unregisterClient_def
      processAction_def send_eq sendAll_eq)

lemma run_bound_slot:
  "players (db h) i = Some p \<Longrightarrow> truthy (credentials_pm p) \<Longrightarrow>
   players (db (run f h ops)) i = Some p"
  unfolding run_def by (induction ops arbitrary: h) (simp_all add: step_bound_slot)



text \<open>A handle that is rejected and not registered stays so, and nothing is sent to it.\<close>

lemma step_rejects:
  assumes "\<not> fst (authenticateClient h c)"
  shows "\<not> fst (authenticateClient (step f h op) c)"
proof -
  from assms obtain s i p where *: "playerID (metadata c) = Str s"
      "key_index (StringToNumber s) = Some i" "players (db h) i = Some p"
      "truthy (credentials_pm p)" "credentials (metadata c) \<noteq> credentials_pm p"
    unfolding authenticateClient_rejects by blast
  from *(3,4) have "players (db (step f h op)) i = Some p" by (rule step_bound_slot)
  with * show ?thesis unfolding authenticateClient_rejects by blast
qed

lemma step_keeps_out:
  "\<not> fst (authenticateClient h c) \<Longrightarrow> c \<notin> fst ` set (clients h) \<Longrightarrow>
   c \<notin> fst ` set (clients (step f h op))"
proof (cases op)
  case (RegisterClient d)
  assume a: "\<not> fst (authenticateClient h c)" "c \<notin> fst ` set (clients h)"
  then have "d \<noteq> c \<or> \<not> fst (authenticateClient h d)" by blast
  with a RegisterClient show ?thesis
    by (auto simp: registerClient_clients AList.dom_update)
next
  case (UnregisterClient d)
  assume "c \<notin> fst ` set (clients h)"
  with UnregisterClient show ?thesis
    using AList.dom_delete_subset [of d "clients h"] by (auto simp: unregisterClient_def)
qed (simp_all add: processAction_def authenticateClient_clients send_eq sendAll_eq)

lemma step_trace:
  "\<exists>es. trace (step f h op) = trace h @ es \<and> fst ` set (sends es) \<subseteq> fst ` set (clients h)"
proof (cases op)
  case (RegisterClient d)
  obtain es where "trace (snd (authenticateClient h d)) = trace h @ es" "sends es = []"
    using trace_authenticateClient by blast
  with RegisterClient show ?thesis
    by (auto simp: registerClient_def sends_append split: prod.splits)
next
  case (AuthenticateClient d)
  then show ?thesis using trace_authenticateClient [of h d] by auto
next
  case (Send pid data)
  have "fst ` set (sends (new_effects h (send f h pid data))) \<subseteq> fst ` set (clients h)"
    unfolding sends_send by force
  with Send show ?thesis using trace_send [of f h pid data] by auto
next
  case (SendAll data)
  have "fst ` set (sends (new_effects h (sendAll f h data))) \<subseteq> fst ` set (clients h)"
    unfolding sends_sendAll by force
  with SendAll show ?thesis using trace_sendAll [of f h data] by auto
qed (auto simp: unregisterClient_def processAction_def)

lemma run_rejected:
  assumes "\<not> fst (authenticateClient h c)" and "c \<notin> fst ` set (clients h)"
  shows "\<not> fst (authenticateClient (run f h ops) c) \<and> c \<notin> fst ` set (clients (run f h ops)) \<and>
     (\<exists>es. trace (run f h ops) = trace h @ es \<and> c \<notin> fst ` set (sends es))"
proof (induction ops rule: rev_induct)
  case Nil
  from assms show ?case by (simp add: run_def)
next
  case (snoc op ops)
  let ?h = "run f h ops"
  from snoc obtain es where es: "trace ?h = trace h @ es" "c \<notin> fst ` set (sends es)" by blast
  obtain es' where es': "trace (step f ?h op) = trace ?h @ es'"
      "fst ` set (sends es') \<subseteq> fst ` set (clients ?h)"
    using step_trace by blast
  from snoc es' have "c \<notin> fst ` set (sends es')" by blast
  with es es' have
    "trace (step f ?h op) = trace h @ (es @ es') \<and> c \<notin> fst ` set (sends (es @ es'))"
    by (simp add: sends_append image_Un)
  with snoc show ?case
    unfolding run_snoc using step_rejects step_keeps_out by blast
qed

section \<open>Facts about the examples\<close>

lemma h_reg_clients: "clients h_reg = [(guest, guest), (alice, alice)]"
  by (simp add: h_reg_def run_def registerClient_def authenticateClient_def key_index_0
      fetch_def setMetadata_def truthy_def example_defs handles Let_def)

lemma h_reg_db: "players (db h_reg) 0 = Some (entry 0 (Some ''c0''))"
  by (simp add: h_reg_def run_def registerClient_def authenticateClient_def key_index_0
      fetch_def setMetadata_def truthy_def example_defs handles Let_def)

lemma h_reg_rejects_guest: "\<not> fst (authenticateClient h_reg guest)"
  by (simp add: authenticateClient_def key_index_0 fetch_def h_reg_db truthy_def entry_def
      handles)

lemma h_pair_clients: "clients h_pair = [(guest, guest), (guest2, guest2)]"
  by (simp add: h_pair_def run_def registerClient_def authenticateClient_def key_index_0
      fetch_def truthy_def example_defs handles Let_def)

lemma h_three_clients: "clients h_three = [(alice, alice), (bob, bob), (watcher, watcher)]"
  by (simp add: h_three_def fresh_host_def plain_metadata_def run_def registerClient_def
      authenticateClient_def key_index_0 key_index_1 fetch_def setMetadata_def truthy_def
      entry_def handles Let_def)

lemma m1_bound_rejects_mallory: "\<not> fst (authenticateClient m1_bound mallory)"
  by (simp add: authenticateClient_def key_index_0 fetch_def truthy_def m1_bound_def
      example_defs handles)

section \<open>The claims\<close>

text \<open>
  C1. Credential binding is one-shot. For a player slot \<open>i\<close> without stored credentials
  (none, or the empty string), an \<^verbatim>\<open>authenticateClient\<close> call for that slot that supplies
  non-empty credentials \<open>k\<close> returns true, and the stored credentials of the slot become
  \<open>k\<close>. After any further operations of the host (registrations, removals, messages,
  authorization checks, fan-outs) the stored credentials of the slot are still \<open>k\<close>, and
  a call for that slot that supplies non-empty credentials \<open>k'\<close> returns true exactly
  when \<open>k' = k\<close>.
\<close>

theorem credential_binding_is_one_shot:
  assumes "playerID (metadata client) = Str s" and "key_index (StringToNumber s) = Some i"
    and "players (fetch h) i = Some player" and "\<not> truthy (credentials_pm player)"
    and "credentials (metadata client) = Some k" and "k \<noteq> []"
    and "playerID (metadata client') = Str s'" and "key_index (StringToNumber s') = Some i"
    and "credentials (metadata client') = Some k'" and "k' \<noteq> []"
  shows "fst (authenticateClient h client)
     \<and> stored_credentials (snd (authenticateClient h client)) i = Some k
     \<and> stored_credentials (run f (snd (authenticateClient h client)) ops) i = Some k
     \<and> fst (authenticateClient (run f (snd (authenticateClient h client)) ops) client') = (k' = k)"
proof -
  let ?h1 = "snd (authenticateClient h client)"
  let ?p = "player\<lparr>credentials_pm := Some k\<rparr>"
  from assms(1-6) have first: "fst (authenticateClient h client)"
    and slot: "players (db ?h1) i = Some ?p"
    by (simp_all add: authenticateClient_def Let_def truthy_def fetch_def setMetadata_def)
  from assms(6) have bound: "truthy (credentials_pm ?p)" by (simp add: truthy_def)
  have later: "players (db (run f ?h1 ops)) i = Some ?p"
    using slot bound by (rule run_bound_slot)
  have "authenticateClient (run f ?h1 ops) client'
          = (credentials (metadata client') = credentials_pm ?p, run f ?h1 ops)"
    using assms(7,8) later bound by (rule authenticateClient_bound)
  with assms(9) have "fst (authenticateClient (run f ?h1 ops) client') = (k' = k)" by simp
  with first slot later show ?thesis by (simp add: stored_credentials_def fetch_def)
qed

text \<open>
  Scenario A: \<open>alice\<close> binds slot 0 of \<^verbatim>\<open>m1\<close> with \<^verbatim>\<open>c0\<close>; after three more calls the
  slot still holds \<^verbatim>\<open>c0\<close>, \<^verbatim>\<open>wrong\<close> is rejected and \<^verbatim>\<open>c0\<close> is accepted.
\<close>

theorem credential_binding_is_one_shot_witness:
  "fst (authenticateClient host_m1 alice)
   \<and> stored_credentials (snd (authenticateClient host_m1 alice)) 0 = Some ''c0''
   \<and> stored_credentials (run view_for (snd (authenticateClient host_m1 alice))
        [RegisterClient mallory, RegisterClient guest, AuthenticateClient bob]) 0 = Some ''c0''
   \<and> \<not> fst (authenticateClient (run view_for (snd (authenticateClient host_m1 alice))
        [RegisterClient mallory, RegisterClient guest, AuthenticateClient bob]) mallory)
   \<and> fst (authenticateClient (run view_for (snd (authenticateClient host_m1 alice))
        [RegisterClient mallory, RegisterClient guest, AuthenticateClient bob]) alice)"
proof -
  have a: "playerID (metadata alice) = Str ''0''" "credentials (metadata alice) = Some ''c0''"
    and m: "playerID (metadata mallory) = Str ''0''"
      "credentials (metadata mallory) = Some ''wrong''"
    by (simp_all add: handles)
  have slot: "players (fetch host_m1) 0 = Some (entry 0 None)"
    by (simp add: fetch_def example_defs)
  have free: "\<not> truthy (credentials_pm (entry 0 None))" by (simp add: entry_def truthy_def)
  have ne: "''c0'' \<noteq> []" "''wrong'' \<noteq> []" by simp_all
  show ?thesis
    using credential_binding_is_one_shot
        [OF a(1) key_index_0 slot free a(2) ne(1) m(1) key_index_0 m(2) ne(2), of view_for
          "[RegisterClient mallory, RegisterClient guest, AuthenticateClient bob]"]
      credential_binding_is_one_shot
        [OF a(1) key_index_0 slot free a(2) ne(1) a(1) key_index_0 a(2) ne(1), of view_for
          "[RegisterClient mallory, RegisterClient guest, AuthenticateClient bob]"]
    by simp
qed



text \<open>
  C3, as stated, fails: a handle for which \<^verbatim>\<open>authenticateClient\<close> returns false can be in
  the registry after \<^verbatim>\<open>registerClient\<close>, and a later fan-out reaches it. In \<open>h_reg\<close> the
  handle \<open>guest\<close> was registered while slot 0 was unbound; \<open>alice\<close> then bound the slot.
  Registering \<open>guest\<close> again is refused, the registry is left as it was, so \<open>guest\<close> is
  still there and receives the next \<^verbatim>\<open>sendAll\<close>.
\<close>

theorem rejected_handle_still_registered_counterexample:
  "\<not> fst (authenticateClient h_reg guest)
   \<and> guest \<in> fst ` set (clients (registerClient h_reg guest))
   \<and> (guest, ''state for 0'')
       \<in> set (sends (new_effects (registerClient h_reg guest)
                  (sendAll view_for (registerClient h_reg guest) ''state'')))"
proof -
  have same: "registerClient h_reg guest = h_reg"
    using h_reg_rejects_guest by (rule registerClient_rejected)
  have "guest \<in> fst ` set (clients h_reg)" by (simp add: h_reg_clients)
  moreover have "(guest, ''state for 0'')
      \<in> set (sends (new_effects h_reg (sendAll view_for h_reg ''state'')))"
    unfolding sends_sendAll by (simp add: h_reg_clients view_for_def handles)
  ultimately show ?thesis using h_reg_rejects_guest same by simp
qed

text \<open>
  C3, amended. For every handle for which \<^verbatim>\<open>authenticateClient\<close> returns false,
  \<^verbatim>\<open>registerClient\<close> leaves the host as it was: the registry is unchanged and no
  connection-change notification (no effect at all) is produced. If the handle was not
  in the registry before the call, it is not in the registry after it nor after any
  further operations of the host, and no fan-out in those operations calls its
  \<^verbatim>\<open>send\<close>.
\<close>

theorem rejected_handle_is_not_registered:
  assumes "\<not> fst (authenticateClient h client)"
  shows "registerClient h client = h
     \<and> clients (registerClient h client) = clients h
     \<and> notifications (new_effects h (registerClient h client)) = []
     \<and> (client \<notin> fst ` set (clients h) \<longrightarrow>
          client \<notin> fst ` set (clients (run f (registerClient h client) ops))
          \<and> client \<notin> fst ` set (sends (new_effects h (run f (registerClient h client) ops))))"
proof -
  have eq: "registerClient h client = h" using assms by (rule registerClient_rejected)
  have "client \<notin> fst ` set (clients (run f h ops)) \<and>
        client \<notin> fst ` set (sends (new_effects h (run f h ops)))"
    if out: "client \<notin> fst ` set (clients h)"
  proof -
    from run_rejected [OF assms out, of f ops] obtain es where
      "client \<notin> fst ` set (clients (run f h ops))" "trace (run f h ops) = trace h @ es"
      "client \<notin> fst ` set (sends es)" by blast
    then show ?thesis by (simp add: new_effects_def)
  qed
  with eq show ?thesis by (simp add: new_effects_def)
qed

theorem rejected_handle_is_not_registered_witness:
  "\<not> fst (authenticateClient m1_bound mallory)
   \<and> mallory \<notin> fst ` set (clients m1_bound)
   \<and> registerClient m1_bound mallory = m1_bound
   \<and> mallory \<notin> fst ` set (clients (run view_for (registerClient m1_bound mallory)
        [RegisterClient alice, RegisterClient mallory, SendAll ''state'',
         Send (Str ''0'') ''state'']))
   \<and> mallory \<notin> fst ` set (sends (new_effects m1_bound
        (run view_for (registerClient m1_bound mallory)
           [RegisterClient alice, RegisterClient mallory, SendAll ''state'',
            Send (Str ''0'') ''state''])))"
proof -
  have out: "mallory \<notin> fst ` set (clients m1_bound)" by (simp add: m1_bound_def host_m1_def)
  show ?thesis
    using rejected_handle_is_not_registered [OF m1_bound_rejects_mallory, of view_for
        "[RegisterClient alice, RegisterClient mallory, SendAll ''state'',
          Send (Str ''0'') ''state'']"]
      m1_bound_rejects_mallory out
    by blast
qed



text \<open>
  C5, as stated, fails for \<^verbatim>\<open>send\<close> to a player: the view filter is called once per
  call, before the registry is walked, not once per recipient. With two registered
  handles that claim player 0 there are two deliveries and one filter call; with an
  empty registry there is no delivery and still one filter call.
\<close>

theorem filter_called_once_per_send_counterexample:
  "sends (new_effects h_pair (send view_for h_pair (Str ''0'') ''state''))
     = [(guest, ''state for 0''), (guest2, ''state for 0'')]
   \<and> filter_calls (new_effects h_pair (send view_for h_pair (Str ''0'') ''state''))
     = [(Str ''0'', ''state'')]
   \<and> sends (new_effects host_m1 (send view_for host_m1 (Str ''0'') ''state'')) = []
   \<and> filter_calls (new_effects host_m1 (send view_for host_m1 (Str ''0'') ''state''))
     = [(Str ''0'', ''state'')]"
  unfolding sends_send filter_calls_send
  by (simp add: h_pair_clients view_for_def handles host_m1_def)

text \<open>
  C5, amended. \<^verbatim>\<open>sendAll\<close> calls the view filter once per registered handle, keyed by that
  handle's claimed \<^verbatim>\<open>playerID\<close>, and sends each output to that handle only. \<^verbatim>\<open>send\<close> to a
  player calls the view filter exactly once per call, keyed by the target \<^verbatim>\<open>playerID\<close>,
  and sends that one output to every registered handle whose claimed \<^verbatim>\<open>playerID\<close> equals
  the target; so an output is shared only among recipients that claim the same identity.
\<close>

theorem redaction_per_fan_out:
  "new_effects h (sendAll f h data) =
     concat (map (\<lambda>c. [FilterPlayerView (playerID (metadata c)) data,
                       ClientSend c (f (playerID (metadata c)) data)]) (map fst (clients h)))
   \<and> filter_calls (new_effects h (sendAll f h data))
       = map (\<lambda>c. (playerID (metadata c), data)) (map fst (clients h))
   \<and> new_effects h (send f h pid data) =
       FilterPlayerView pid data #
       map (\<lambda>c. ClientSend c (f pid data))
         (filter (\<lambda>c. playerID (metadata c) = pid) (map fst (clients h)))
   \<and> filter_calls (new_effects h (send f h pid data)) = [(pid, data)]
   \<and> (\<forall>(c, v) \<in> set (sends (new_effects h (send f h pid data))).
         playerID (metadata c) = pid \<and> v = f pid data)"
proof -
  have "\<forall>(c, v) \<in> set (sends (new_effects h (send f h pid data))).
         playerID (metadata c) = pid \<and> v = f pid data"
    unfolding sends_send by auto
  then show ?thesis
    using new_effects_sendAll [of h f data] filter_calls_sendAll [of h f data]
      new_effects_send [of h f pid data] filter_calls_send [of h f pid data]
    by blast
qed

theorem redaction_per_fan_out_witness:
  "filter_calls (new_effects h_three (sendAll view_for h_three ''state''))
     = [(Str ''0'', ''state''), (Str ''1'', ''state''), (Undefined, ''state'')]
   \<and> filter_calls (new_effects h_three (send view_for h_three (Str ''1'') ''state''))
     = [(Str ''1'', ''state'')]
   \<and> new_effects h_three (send view_for h_three (Str ''1'') ''state'')
     = [FilterPlayerView (Str ''1'') ''state'', ClientSend bob ''state for 1'']"
  using redaction_per_fan_out [of h_three view_for "''state''" "Str ''1''"]
  by (simp add: h_three_clients view_for_def handles)

text \<open>
  C6. \<^verbatim>\<open>unregisterClient\<close> is idempotent on the registry and always succeeds (it has no
  failing path: the model is a total function). After a call the handle is not in the
  registry; a second call on the same handle leaves the registry as the first call
  left it; a call on a handle that is not registered leaves the registry as it was.
\<close>

theorem unregister_is_idempotent:
  "clients (unregisterClient (unregisterClient h client) client)
     = clients (unregisterClient h client)
   \<and> client \<notin> fst ` set (clients (unregisterClient h client))
   \<and> (client \<notin> fst ` set (clients h) \<longrightarrow> clients (unregisterClient h client) = clients h)"
  by (simp add: unregisterClient_def AList.delete_idem AList.delete_notin_dom)

theorem unregister_is_idempotent_witness:
  "guest \<notin> fst ` set (clients host_m1)
   \<and> clients (unregisterClient host_m1 guest) = clients host_m1
   \<and> clients (unregisterClient (unregisterClient h_reg guest) guest)
       = clients (unregisterClient h_reg guest)"
proof -
  have "guest \<notin> fst ` set (clients host_m1)" by (simp add: host_m1_def)
  then show ?thesis
    using unregister_is_idempotent [of host_m1 guest] unregister_is_idempotent [of h_reg guest]
    by blast
qed



text \<open>
  C8. The action router passes a message of type \<^verbatim>\<open>update\<close>, \<^verbatim>\<open>sync\<close> or \<^verbatim>\<open>chat\<close> to
  \<^verbatim>\<open>onUpdate\<close>, \<^verbatim>\<open>onSync\<close> or \<^verbatim>\<open>onChatMessage\<close> of the engine with the message's
  arguments, in order and as they are, and does nothing else; a message of any other
  type leaves the host as it was, with no effect.
\<close>

theorem action_router_dispatches:
  "(type data = ''update'' \<longrightarrow>
      processAction h data = h\<lparr>trace := trace h @ [Master (OnUpdate (args data))]\<rparr>)
   \<and> (type data = ''sync'' \<longrightarrow>
      processAction h data = h\<lparr>trace := trace h @ [Master (OnSync (args data))]\<rparr>)
   \<and> (type data = ''chat'' \<longrightarrow>
      processAction h data = h\<lparr>trace := trace h @ [Master (OnChatMessage (args data))]\<rparr>)
   \<and> (type data \<notin> {''update'', ''sync'', ''chat''} \<longrightarrow> processAction h data = h)"
  by (simp add: processAction_def)

text \<open>Scenario C.\<close>

theorem action_router_dispatches_witness:
  "processAction host_m1 \<lparr>type = ''chat'', args = [''hello'']\<rparr>
     = host_m1\<lparr>trace := trace host_m1 @ [Master (OnChatMessage [''hello''])]\<rparr>
   \<and> processAction host_m1 \<lparr>type = ''bogus'', args = []\<rparr> = host_m1"
  using action_router_dispatches [of "\<lparr>type = ''chat'', args = [''hello'']\<rparr>" host_m1]
    action_router_dispatches [of "\<lparr>type = ''bogus'', args = []\<rparr>" host_m1]
  by simp

text \<open>
  C9. Construction fails exactly on setup errors: the constructor throws, and there is no
  host, if and only if \<^verbatim>\<open>createMatch\<close> reports a setup-data error; otherwise it returns a
  host with an empty registry and the new match's metadata. A game whose name is
  missing, empty or \<^verbatim>\<open>default\<close> adds a warning on the console and nothing else: the
  outcome does not depend on it.
\<close>

theorem construction_fails_exactly_on_setup_errors:
  fixes createMatch :: "game \<Rightarrow> nat \<Rightarrow> createMatch_result"
  shows "((\<exists>e. snd (new_P2PHost createMatch game numPlayers mid
                    :: string list \<times> (error + 'a P2PHost)) = Inl e)
        \<longleftrightarrow> (\<exists>e. createMatch game (case numPlayers of None \<Rightarrow> 2 | Some n \<Rightarrow> n)
                  = SetupDataError e))
   \<and> (\<forall>md. createMatch game (case numPlayers of None \<Rightarrow> 2 | Some n \<Rightarrow> n) = Match md \<longrightarrow>
         snd (new_P2PHost createMatch game numPlayers mid
                :: string list \<times> (error + 'a P2PHost))
           = Inr \<lparr>clients = [], matchID = mid, db = md, trace = []\<rparr>)
   \<and> fst (new_P2PHost createMatch game numPlayers mid
            :: string list \<times> (error + 'a P2PHost))
        = (if name game = None \<or> name game = Some '''' \<or> name game = Some ''default''
           then [default_name_warning] else [])"
  by (auto simp: new_P2PHost_def P2PDB_createMatch_def Let_def truthy_def
      split: createMatch_result.splits option.splits)

theorem construction_fails_exactly_on_setup_errors_witness:
  "fst (new_P2PHost createMatch_plain unnamed None ''m1''
          :: string list \<times> (error + string P2PHost))
      = [default_name_warning]
   \<and> snd (new_P2PHost createMatch_plain unnamed None ''m1'')
      = Inr (fresh_host unnamed 2 ''m1'')
   \<and> createMatch_strict chess 2 = SetupDataError ''setupData is required''
   \<and> (\<exists>e. snd (new_P2PHost createMatch_strict chess (Some 2) ''m1''
                  :: string list \<times> (error + string P2PHost)) = Inl e)"
proof -
  have ok: "createMatch_plain unnamed (case None of None \<Rightarrow> 2 | Some n \<Rightarrow> n)
      = Match (plain_metadata unnamed 2)"
    by (simp add: createMatch_plain_def)
  have bad: "createMatch_strict chess (case Some 2 of None \<Rightarrow> 2 | Some n \<Rightarrow> n)
      = SetupDataError ''setupData is required''"
    by (simp add: createMatch_strict_def)
  show ?thesis
    using construction_fails_exactly_on_setup_errors
        [of createMatch_plain unnamed None "''m1''", where ?'a = string]
      construction_fails_exactly_on_setup_errors
        [of createMatch_strict chess "Some 2" "''m1''", where ?'a = string] ok bad
    by (auto simp: fresh_host_def unnamed_def)
qed

text \<open>
  C10. Empty-string credentials behave as absent credentials. For a handle that claims
  an existing slot: if the slot has no stored credentials and the handle supplies the
  empty string, the call returns true and writes nothing, so the slot stays unbound. If
  the stored credentials are the empty string, the slot counts as having none: every
  handle that claims it is authorized, one without credentials (or with the empty
  string) writes nothing, and one with non-empty credentials binds them over the empty
  string.
\<close>

theorem empty_string_credentials_are_absent:
  assumes "playerID (metadata client) = Str s" and "key_index (StringToNumber s) = Some i"
    and "players (fetch h) i = Some player"
  shows "(\<not> truthy (credentials_pm player) \<and> credentials (metadata client) = Some '''' \<longrightarrow>
            authenticateClient h client = (True, h))
       \<and> (credentials_pm player = Some '''' \<longrightarrow>
            fst (authenticateClient h client)
            \<and> (\<not> truthy (credentials (metadata client)) \<longrightarrow>
                 authenticateClient h client = (True, h))
            \<and> (truthy (credentials (metadata client)) \<longrightarrow>
                 authenticateClient h client =
                   (True, setMetadata h ((fetch h)\<lparr>players := (players (fetch h))
                      (i \<mapsto> player\<lparr>credentials_pm := credentials (metadata client)\<rparr>)\<rparr>))
                 \<and> stored_credentials (snd (authenticateClient h client)) i
                     = credentials (metadata client)))"
  using assms
  by (simp add: authenticateClient_def Let_def truthy_def stored_credentials_def fetch_def
      setMetadata_def)

theorem empty_string_credentials_are_absent_witness:
  "authenticateClient host_m1 (handle 1 (Str ''0'') (Some '''')) = (True, host_m1)
   \<and> fst (authenticateClient
        (setMetadata host_m1 (two_players\<lparr>players := [0 \<mapsto> entry 0 (Some '''')]\<rparr>))
        (handle 2 (Str ''0'') (Some ''c0'')))
   \<and> stored_credentials (snd (authenticateClient
        (setMetadata host_m1 (two_players\<lparr>players := [0 \<mapsto> entry 0 (Some '''')]\<rparr>))
        (handle 2 (Str ''0'') (Some ''c0'')))) 0 = Some ''c0''
   \<and> authenticateClient
        (setMetadata host_m1 (two_players\<lparr>players := [0 \<mapsto> entry 0 (Some '''')]\<rparr>))
        (handle 3 (Str ''0'') None)
      = (True, setMetadata host_m1 (two_players\<lparr>players := [0 \<mapsto> entry 0 (Some '''')]\<rparr>))"
proof -
  have unbound: "players (fetch host_m1) 0 = Some (entry 0 None)"
    by (simp add: fetch_def example_defs)
  have empty: "players (fetch (setMetadata host_m1
      (two_players\<lparr>players := [0 \<mapsto> entry 0 (Some '''')]\<rparr>))) 0 = Some (entry 0 (Some ''''))"
    by (simp add: fetch_def setMetadata_def)
  have pid: "playerID (metadata (handle r (Str ''0'') c)) = Str ''0''" for r c
    by (simp add: handle_def)
  have a: "authenticateClient host_m1 (handle 1 (Str ''0'') (Some '''')) = (True, host_m1)"
    using empty_string_credentials_are_absent [OF pid key_index_0 unbound, of 1 "Some ''''"]
    by (simp add: handle_def entry_def truthy_def)
  have b: "fst (authenticateClient
        (setMetadata host_m1 (two_players\<lparr>players := [0 \<mapsto> entry 0 (Some '''')]\<rparr>))
        (handle 2 (Str ''0'') (Some ''c0'')))
     \<and> stored_credentials (snd (authenticateClient
        (setMetadata host_m1 (two_players\<lparr>players := [0 \<mapsto> entry 0 (Some '''')]\<rparr>))
        (handle 2 (Str ''0'') (Some ''c0'')))) 0 = Some ''c0''"
    using empty_string_credentials_are_absent [OF pid key_index_0 empty, of 2 "Some ''c0''"]
    by (simp add: handle_def entry_def truthy_def stored_credentials_def fetch_def
        setMetadata_def)
  have c: "authenticateClient
        (setMetadata host_m1 (two_players\<lparr>players := [0 \<mapsto> entry 0 (Some '''')]\<rparr>))
        (handle 3 (Str ''0'') None)
      = (True, setMetadata host_m1 (two_players\<lparr>players := [0 \<mapsto> entry 0 (Some '''')]\<rparr>))"
    using empty_string_credentials_are_absent [OF pid key_index_0 empty, of 3 None]
    by (simp add: handle_def entry_def truthy_def)
  show ?thesis using a b c by blast
qed

end
